theory Spec2Isabelle
  imports Main
begin

section \<open>Data model\<close>

text \<open>
  The program reads the JSON documentation of two Node.js versions, normalizes every
  top-level module into a flat record of methods and classes, and prints the methods that
  the newer version adds. The JSON is modelled with the shape \<^verbatim>\<open>index.js\<close> relies on:
  a field the code tests for presence, or dereferences, is an \<open>option\<close> (\<open>None\<close> is the
  JavaScript \<^verbatim>\<open>undefined\<close> of a missing field); \<^verbatim>\<open>name\<close> and \<^verbatim>\<open>textRaw\<close>, which are only
  copied and compared, are strings. Entries of a \<^verbatim>\<open>modules\<close> array are objects.
\<close>

text \<open>The exceptions the program can raise. \<open>FetchError\<close> stands for every failure of
  \<^verbatim>\<open>getModuleDefinition\<close> (a non-2xx response, unparsable JSON, a file system error).\<close>

datatype error = AssertionError | TypeError | RangeError | FetchError

text \<open>\<^verbatim>\<open>signatures[i].return\<close> with its optional \<^verbatim>\<open>type\<close>.\<close>

record raw_return =
  ret_type :: "string option"

record raw_signature =
  sig_return :: "raw_return option"

record raw_method =
  m_name :: string
  textRaw :: string
  signatures :: "raw_signature list option"

record raw_class =
  c_name :: string
  c_methods :: "raw_method list option"

text \<open>A module node: \<^verbatim>\<open>name\<close>, and the optional arrays \<^verbatim>\<open>methods\<close>, \<^verbatim>\<open>classes\<close>, \<^verbatim>\<open>modules\<close>.\<close>

datatype raw_module =
  RawModule (md_name: string) (md_methods: "raw_method list option")
    (md_classes: "raw_class list option") (md_modules: "raw_module list option")

text \<open>The document \<^verbatim>\<open>getModuleDefinition\<close> returns; only its \<^verbatim>\<open>modules\<close> field is read.\<close>

record raw_document =
  doc_modules :: "raw_module list option"

text \<open>The normalized values: \<^verbatim>\<open>{name, signature, returnType}\<close>, \<^verbatim>\<open>{methods, name}\<close> and
  \<^verbatim>\<open>{name, methods, classes}\<close>. \<open>returnType = None\<close> is \<^verbatim>\<open>null\<close>.\<close>

record norm_method =
  name :: string
  signature :: string
  returnType :: "string option"

record norm_class =
  class_methods :: "norm_method list"
  class_name :: string

record norm_module =
  mod_name :: string
  methods :: "norm_method list"
  classes :: "norm_class list"

section \<open>Helpers of the embedding\<close>

text \<open>\<^verbatim>\<open>Array.prototype.map\<close> with a callback that may throw: the elements are visited in
  order and the first exception leaves the loop.\<close>

fun mapE :: "('a \<Rightarrow> error + 'b) \<Rightarrow> 'a list \<Rightarrow> error + 'b list" where
  "mapE f [] = Inr []"
| "mapE f (x # xs) =
     (case f x of
        Inl e \<Rightarrow> Inl e
      | Inr y \<Rightarrow> (case mapE f xs of Inl e \<Rightarrow> Inl e | Inr ys \<Rightarrow> Inr (y # ys)))"

text \<open>A JavaScript array whose elements are either arrays again or other values.\<close>

datatype 'a nested = Item 'a | Arr "'a nested list"

section \<open>The normalizer\<close>

text \<open>
  \<^verbatim>\<open>const flatten = (a) => a.reduce((acc, curr) =>
      Array.isArray(curr) ? [...acc, ...flatten(curr)] : [...acc, curr], []);\<close>
\<close>

fun flatten :: "'a nested list \<Rightarrow> 'a list" where
  "flatten a =
     foldl (\<lambda>acc curr. case curr of Arr xs \<Rightarrow> acc @ flatten xs | Item x \<Rightarrow> acc @ [x]) [] a"

declare flatten.simps [simp del]

text \<open>
  \<^verbatim>\<open>createMethod\<close> (lines 51-61). \<^verbatim>\<open>m.signatures.length\<close> throws a TypeError when the field is
  missing, the assertion fails unless there is exactly one signature;
  \<^verbatim>\<open>returnValue\<close> is \<^verbatim>\<open>signatures[0].return && signatures[0].return.type\<close>, and
  \<^verbatim>\<open>returnValue || null\<close> turns every falsy value, the empty string too, into \<^verbatim>\<open>null\<close>.
\<close>

definition createMethod :: "raw_method \<Rightarrow> error + norm_method" where
  "createMethod m =
     (case signatures m of
        None \<Rightarrow> Inl TypeError
      | Some sigs \<Rightarrow>
          if length sigs \<noteq> 1 then Inl AssertionError
          else
            let returnValue =
                  (case sig_return (sigs ! 0) of None \<Rightarrow> None | Some r \<Rightarrow> ret_type r)
            in Inr \<lparr> name = m_name m,
                     signature = textRaw m,
                     returnType =
                       (case returnValue of
                          None \<Rightarrow> None
                        | Some t \<Rightarrow> if t = [] then None else Some t) \<rparr>)"

text \<open>The callback of lines 103-110: \<^verbatim>\<open>c.methods.map(createMethod)\<close>, then \<^verbatim>\<open>{methods, name}\<close>.\<close>

definition createClass :: "raw_class \<Rightarrow> error + norm_class" where
  "createClass c =
     (case c_methods c of
        None \<Rightarrow> Inl TypeError
      | Some ms \<Rightarrow>
          (case mapE createMethod ms of
             Inl e \<Rightarrow> Inl e
           | Inr methods' \<Rightarrow> Inr \<lparr> class_methods = methods', class_name = c_name c \<rparr>))"

text \<open>\<^verbatim>\<open>modules.map(m => m.methods)\<close> and \<^verbatim>\<open>modules.map(m => m.classes)\<close> of lines 126-127,
  over the array \<^verbatim>\<open>modules\<close> whose entry is \<^verbatim>\<open>null\<close> (\<open>None\<close>) where the \<^verbatim>\<open>catch\<close>
  of line 117 returned: reading a property of \<^verbatim>\<open>null\<close> throws a TypeError.\<close>

definition membersOf :: "(norm_module \<Rightarrow> 'a list) \<Rightarrow> norm_module option list \<Rightarrow> error + 'a nested list" where
  "membersOf field modules =
     mapE (\<lambda>m. case m of None \<Rightarrow> Inl TypeError | Some r \<Rightarrow> Inr (Arr (map Item (field r)))) modules"

text \<open>
  Lines 90-128 of \<^verbatim>\<open>createModuleForVersion\<close>: what the function does once
  \<^verbatim>\<open>moduleMetadata\<close> is set. The recursive call of line 116 passes the descendant itself as
  \<^verbatim>\<open>moduleMetadata\<close>, an object and so truthy, hence it runs exactly this part. The
  \<^verbatim>\<open>try/catch\<close> around it turns an exception of the descendant into \<^verbatim>\<open>null\<close>; the message
  written to standard error is not part of the model. Every callback given to
  \<^verbatim>\<open>Promise.all\<close> resolves, and the array it yields is in the order of \<^verbatim>\<open>modules\<close>.
\<close>

fun createModule :: "raw_module \<Rightarrow> error + norm_module" where
  "createModule (RawModule nm ms cs mods) =
     (case (case ms of None \<Rightarrow> Inr [] | Some l \<Rightarrow> mapE createMethod l) of
        Inl e \<Rightarrow> Inl e
      | Inr methods' \<Rightarrow>
     (case (case cs of
              None \<Rightarrow> Inr []
            | Some l \<Rightarrow> mapE createClass (filter (\<lambda>c. c_methods c \<noteq> None) l)) of
        Inl e \<Rightarrow> Inl e
      | Inr classes' \<Rightarrow>
     (let modules =
            (case mods of
               None \<Rightarrow> []
             | Some l \<Rightarrow>
                 map (\<lambda>m. case createModule m of Inl e \<Rightarrow> None | Inr r \<Rightarrow> Some r) l)
      in
     (case membersOf methods modules of
        Inl e \<Rightarrow> Inl e
      | Inr mm \<Rightarrow>
     (case membersOf classes modules of
        Inl e \<Rightarrow> Inl e
      | Inr cc \<Rightarrow>
          Inr \<lparr> mod_name = nm,
                methods = flatten [Arr (map Item methods'), Arr mm],
                classes = flatten [Arr (map Item classes'), Arr cc] \<rparr>)))))"

declare createModule.simps [simp del]

text \<open>
  \<^verbatim>\<open>createModuleForVersion(moduleName, majorVersion, moduleMetadata)\<close>. \<open>fetch\<close> is
  \<^verbatim>\<open>getModuleDefinition\<close> for the version at hand (cache or network). Without
  \<^verbatim>\<open>moduleMetadata\<close> the top-level document is fetched: no \<^verbatim>\<open>modules\<close> field gives
  \<^verbatim>\<open>null\<close> (\<open>Inr None\<close>), a \<^verbatim>\<open>modules\<close> array of a length other than one fails the
  assertion of line 85, and otherwise \<^verbatim>\<open>modules[0]\<close> is normalized.
\<close>

definition createModuleForVersion ::
  "(string \<Rightarrow> error + raw_document) \<Rightarrow> string \<Rightarrow> raw_module option \<Rightarrow> error + norm_module option" where
  "createModuleForVersion fetch moduleName moduleMetadata =
     (case moduleMetadata of
        None \<Rightarrow>
          (case fetch moduleName of
             Inl e \<Rightarrow> Inl e
           | Inr topLevelModule \<Rightarrow>
               (case doc_modules topLevelModule of
                  None \<Rightarrow> Inr None
                | Some l \<Rightarrow>
                    if length l \<noteq> 1 then Inl AssertionError
                    else map_sum id Some (createModule (l ! 0))))
      | Some md \<Rightarrow> map_sum id Some (createModule md))"

section \<open>The diff reporter and the main program\<close>

text \<open>
  \<^verbatim>\<open>const pad = (str, paddingLength = 24) =>
      `${str}${Array(paddingLength - str.length).fill(' ').join('')}`;\<close>
  \<^verbatim>\<open>Array(n)\<close> throws a RangeError for a negative \<open>n\<close>.
\<close>

definition pad :: "string \<Rightarrow> nat \<Rightarrow> error + string" where
  "pad str paddingLength =
     (if int paddingLength - int (length str) < 0 then Inl RangeError
      else Inr (str @ replicate (paddingLength - length str) (CHR '' '')))"

text \<open>The decimal digits a template literal writes for a non-negative integer.\<close>

fun decimal :: "nat \<Rightarrow> string" where
  "decimal n =
     (if n < 10 then [''0123456789'' ! n]
      else decimal (n div 10) @ [''0123456789'' ! (n mod 10)])"

declare decimal.simps [simp del]

text \<open>\<^verbatim>\<open>`- ${m.name}: ${m.returnType}`\<close>: a \<^verbatim>\<open>null\<close> return type is written \<^verbatim>\<open>null\<close>.\<close>

definition methodLine :: "norm_method \<Rightarrow> string" where
  "methodLine m =
     ''- '' @ name m @ '': '' @ (case returnType m of None \<Rightarrow> ''null'' | Some t \<Rightarrow> t)"

text \<open>Line 176: the methods of the newer module whose name the older module does not have.\<close>

definition newMethodsOf :: "norm_module \<Rightarrow> norm_module \<Rightarrow> norm_method list" where
  "newMethodsOf oldModule newModule =
     (let oldModuleMethodNames = map name (methods oldModule)
      in filter (\<lambda>m. name m \<notin> set oldModuleMethodNames) (methods newModule))"

text \<open>
  The callback of \<^verbatim>\<open>oldModules.forEach\<close> (lines 173-184), returning the lines it writes to
  standard output. \<^verbatim>\<open>newModules.find\<close> yields \<^verbatim>\<open>undefined\<close> when no module of the newer
  version has the name, and \<^verbatim>\<open>newModule.methods\<close> then throws a TypeError. The header is
  built, \<^verbatim>\<open>pad\<close> included, before \<^verbatim>\<open>console.log\<close> is called, so an exception of \<^verbatim>\<open>pad\<close>
  leaves the block unwritten.
\<close>

definition diffModule :: "norm_module list \<Rightarrow> norm_module \<Rightarrow> error + string list" where
  "diffModule newModules oldModule =
     (case find (\<lambda>m. mod_name m = mod_name oldModule) newModules of
        None \<Rightarrow> Inl TypeError
      | Some newModule \<Rightarrow>
          (let newMethods = newMethodsOf oldModule newModule
           in if length newMethods \<noteq> 0
              then (case pad (mod_name newModule) 24 of
                      Inl e \<Rightarrow> Inl e
                    | Inr padded \<Rightarrow>
                        Inr ((padded @ '' '' @ decimal (length newMethods) @ '' new'')
                             # map methodLine newMethods))
              else Inr []))"

text \<open>\<^verbatim>\<open>oldModules.forEach\<close>: the lines written so far, and the exception that ended the
  loop, if any. What was written before an exception stays written.\<close>

fun diffLoop :: "norm_module list \<Rightarrow> norm_module list \<Rightarrow> string list \<times> error option" where
  "diffLoop [] newModules = ([], None)"
| "diffLoop (oldModule # rest) newModules =
     (case diffModule newModules oldModule of
        Inl e \<Rightarrow> ([], Some e)
      | Inr ls \<Rightarrow> (case diffLoop rest newModules of (out, err) \<Rightarrow> (ls @ out, err)))"

text \<open>The loops of lines 153-160 and 163-170: every module of the list is normalized in
  turn, and a \<^verbatim>\<open>null\<close> result is not pushed.\<close>

fun loadModules :: "(string \<Rightarrow> error + raw_document) \<Rightarrow> string list \<Rightarrow> error + norm_module list" where
  "loadModules fetch [] = Inr []"
| "loadModules fetch (moduleName # rest) =
     (case createModuleForVersion fetch moduleName None of
        Inl e \<Rightarrow> Inl e
      | Inr m \<Rightarrow>
          (case loadModules fetch rest of
             Inl e \<Rightarrow> Inl e
           | Inr ms \<Rightarrow> Inr (case m of None \<Rightarrow> ms | Some x \<Rightarrow> x # ms)))"

text \<open>
  The \<^verbatim>\<open>try\<close> block of the main function (lines 148-189), given the two module lists that
  \<^verbatim>\<open>fetchModuleList\<close> returned and \<^verbatim>\<open>getModuleDefinition\<close> for each version. The result is
  the lines written to standard output and the exit code: any exception is caught at
  line 186 and ends the process with code 1.
\<close>

definition run ::
  "(string \<Rightarrow> error + raw_document) \<Rightarrow> string list \<Rightarrow>
   (string \<Rightarrow> error + raw_document) \<Rightarrow> string list \<Rightarrow> string list \<times> nat" where
  "run fetchOld oldModuleList fetchNew newModuleList =
     (case loadModules fetchOld oldModuleList of
        Inl e \<Rightarrow> ([], 1)
      | Inr oldModules \<Rightarrow>
          (case loadModules fetchNew newModuleList of
             Inl e \<Rightarrow> ([], 1)
           | Inr newModules \<Rightarrow>
               (case diffLoop oldModules newModules of
                  (out, None) \<Rightarrow> (out, 0)
                | (out, Some e) \<Rightarrow> (out, 1))))"

section \<open>Notions used to state the properties\<close>

text \<open>An optional array read as the code reads it: \<^verbatim>\<open>let methods = []\<close>, replaced only
  when the field is there.\<close>

definition orEmpty :: "'a list option \<Rightarrow> 'a list" where
  "orEmpty field = (case field of None \<Rightarrow> [] | Some l \<Rightarrow> l)"

text \<open>The filter of line 102, \<^verbatim>\<open>.filter((c) => c.methods)\<close>: an array, empty or not, is
  truthy, so the test is whether the field is there.\<close>

definition retained :: "raw_class list option \<Rightarrow> raw_class list" where
  "retained cs = filter (\<lambda>c. c_methods c \<noteq> None) (orEmpty cs)"

text \<open>The raw method descriptors of a module tree in the order of the data model: the
  module's own methods first, then those of each descendant, in the order of \<^verbatim>\<open>modules\<close>,
  each descendant own-first again. Likewise the raw classes that carry a \<^verbatim>\<open>methods\<close>
  field.\<close>

fun rawMethods :: "raw_module \<Rightarrow> raw_method list" where
  "rawMethods (RawModule nm ms cs mods) =
     orEmpty ms @ (case mods of None \<Rightarrow> [] | Some l \<Rightarrow> concat (map rawMethods l))"

fun rawClasses :: "raw_module \<Rightarrow> raw_class list" where
  "rawClasses (RawModule nm ms cs mods) =
     retained cs @ (case mods of None \<Rightarrow> [] | Some l \<Rightarrow> concat (map rawClasses l))"

text \<open>Every raw method descriptor that normalization of a module tree can reach: the
  methods of the modules and the methods of their retained classes.\<close>

definition encountered :: "raw_module \<Rightarrow> raw_method list" where
  "encountered md = rawMethods md @ concat (map (\<lambda>c. orEmpty (c_methods c)) (rawClasses md))"

text \<open>
  The report as the specification words it. The newly introduced methods of a matched
  pair are the methods of the newer module whose \<^verbatim>\<open>name\<close> is not among the method names of
  the older module. If there are any, the block for the pair is one header line, the module
  name padded with spaces to 24 characters, a space, the count and \<^verbatim>\<open>new\<close>, followed by one
  line \<^verbatim>\<open>- <name>: <returnType or null>\<close> for each of them; otherwise the block is empty.
\<close>

definition newlyIntroduced :: "norm_module \<Rightarrow> norm_module \<Rightarrow> norm_method list" where
  "newlyIntroduced older newer =
     filter (\<lambda>m. name m \<notin> name ` set (methods older)) (methods newer)"

definition reportBlock :: "norm_module \<Rightarrow> norm_module \<Rightarrow> string list" where
  "reportBlock older newer =
     (if newlyIntroduced older newer = [] then []
      else (mod_name newer @ replicate (24 - length (mod_name newer)) (CHR '' '') @ '' ''
              @ decimal (length (newlyIntroduced older newer)) @ '' new'')
           # map (\<lambda>m. ''- '' @ name m @ '': ''
                          @ (case returnType m of None \<Rightarrow> ''null'' | Some t \<Rightarrow> t))
                 (newlyIntroduced older newer))"

section \<open>Auxiliary facts\<close>

subsection \<open>\<open>flatten\<close> on the arrays the normalizer builds\<close>

lemma foldl_append_acc:
  assumes step: "\<And>acc c. f acc c = acc @ f [] c"
  shows "foldl f acc a = acc @ foldl f [] a"
proof (induction a arbitrary: acc)
  case Nil
  show ?case by simp
next
  case (Cons c a)
  have "foldl f acc (c # a) = foldl f (f acc c) a" by simp
  also have "\<dots> = f acc c @ foldl f [] a" by (rule Cons.IH)
  also have "\<dots> = acc @ f [] c @ foldl f [] a" by (subst step) simp
  also have "f [] c @ foldl f [] a = foldl f (f [] c) a" by (rule Cons.IH [symmetric])
  finally show ?case by simp
qed

lemma flatten_Nil: "flatten [] = []"
  by (subst flatten.simps) simp

lemma flatten_Cons:
  "flatten (c # a) = (case c of Arr xs \<Rightarrow> flatten xs | Item x \<Rightarrow> [x]) @ flatten a"
proof -
  define f :: "'a list \<Rightarrow> 'a nested \<Rightarrow> 'a list"
    where "f = (\<lambda>acc curr. case curr of Arr xs \<Rightarrow> acc @ flatten xs | Item x \<Rightarrow> acc @ [x])"
  have fl: "\<And>b. flatten b = foldl f [] b"
    unfolding f_def by (rule flatten.simps)
  have step: "\<And>acc c. f acc c = acc @ f [] c"
    by (simp add: f_def split: nested.split)
  have "flatten (c # a) = foldl f (f [] c) a"
    by (simp only: fl foldl_Cons)
  also have "\<dots> = f [] c @ foldl f [] a"
    by (rule foldl_append_acc [of f, OF step])
  finally have main: "flatten (c # a) = f [] c @ foldl f [] a" .
  have head: "f [] c = (case c of Arr xs \<Rightarrow> flatten xs | Item x \<Rightarrow> [x])"
    by (simp add: f_def split: nested.split)
  show ?thesis
    unfolding main head fl [symmetric] ..
qed

lemma flatten_Items: "flatten (map Item xs) = xs"
  by (induction xs) (simp_all add: flatten_Nil flatten_Cons)

lemma flatten_Arrs: "flatten (map (\<lambda>l. Arr (map Item l)) ls) = concat ls"
  by (induction ls) (simp_all add: flatten_Nil flatten_Cons flatten_Items)

lemma flatten_own_nested:
  "flatten [Arr (map Item xs), Arr (map (\<lambda>r. Arr (map Item (g r))) ds)] = xs @ concat (map g ds)"
proof -
  have "map (\<lambda>r. Arr (map Item (g r))) ds = map (\<lambda>l. Arr (map Item l)) (map g ds)"
    by simp
  then show ?thesis
    by (simp add: flatten_Nil flatten_Cons flatten_Items flatten_Arrs del: map_map)
qed

subsection \<open>Maps that may throw\<close>

lemma mapE_Inr_D: "mapE f xs = Inr ys \<Longrightarrow> list_all2 (\<lambda>x y. f x = Inr y) xs ys"
  by (induction xs arbitrary: ys) (auto split: sum.splits)

lemma mapE_Inr_I: "list_all2 (\<lambda>x y. f x = Inr y) xs ys \<Longrightarrow> mapE f xs = Inr ys"
  by (induction rule: list_all2_induct) auto

lemma mapE_Inr_iff: "mapE f xs = Inr ys \<longleftrightarrow> list_all2 (\<lambda>x y. f x = Inr y) xs ys"
  using mapE_Inr_D mapE_Inr_I by blast

lemma mapE_Inl_iff: "(\<exists>e. mapE f xs = Inl e) \<longleftrightarrow> (\<exists>x\<in>set xs. \<exists>e. f x = Inl e)"
  by (induction xs) (auto split: sum.splits)

lemma mapE_append:
  "mapE f (xs @ ys) =
     (case mapE f xs of
        Inl e \<Rightarrow> Inl e
      | Inr a \<Rightarrow> (case mapE f ys of Inl e \<Rightarrow> Inl e | Inr b \<Rightarrow> Inr (a @ b)))"
  by (induction xs) (auto split: sum.splits)

lemma mapE_concat:
  "list_all2 (\<lambda>l r. mapE f l = Inr r) ls rs \<Longrightarrow> mapE f (concat ls) = Inr (concat rs)"
  by (induction rule: list_all2_induct) (auto simp: mapE_append)

subsection \<open>One level of the normalizer\<close>

lemma caught_all_Some:
  "mapE g l = Inr ds \<Longrightarrow>
   map (\<lambda>m. case g m of Inl e \<Rightarrow> None | Inr r \<Rightarrow> Some r) l = map Some ds"
  by (induction l arbitrary: ds) (auto split: sum.splits)

lemma caught_has_None:
  "mapE g l = Inl e \<Longrightarrow>
   None \<in> set (map (\<lambda>m. case g m of Inl e \<Rightarrow> None | Inr r \<Rightarrow> Some r) l)"
  by (induction l) (auto split: sum.splits)

lemma membersOf_Some:
  "membersOf field (map Some ds) = Inr (map (\<lambda>r. Arr (map Item (field r))) ds)"
  by (induction ds) (simp_all add: membersOf_def)

lemma membersOf_None: "None \<in> set modules \<Longrightarrow> membersOf field modules = Inl TypeError"
  by (induction modules) (auto simp: membersOf_def split: sum.splits option.splits)

lemma createModule_cases:
  "createModule (RawModule nm ms cs mods) =
     (case mapE createMethod (orEmpty ms) of
        Inl e \<Rightarrow> Inl e
      | Inr ms' \<Rightarrow>
     (case mapE createClass (retained cs) of
        Inl e \<Rightarrow> Inl e
      | Inr cs' \<Rightarrow>
     (case mapE createModule (orEmpty mods) of
        Inl e \<Rightarrow> Inl TypeError
      | Inr ds \<Rightarrow>
          Inr \<lparr> mod_name = nm,
                methods = ms' @ concat (map methods ds),
                classes = cs' @ concat (map classes ds) \<rparr>)))"
proof -
  have own_m: "(case ms of None \<Rightarrow> Inr [] | Some l \<Rightarrow> mapE createMethod l) = mapE createMethod (orEmpty ms)"
    by (simp add: orEmpty_def split: option.split)
  have own_c: "(case cs of None \<Rightarrow> Inr [] | Some l \<Rightarrow> mapE createClass (filter (\<lambda>c. c_methods c \<noteq> None) l))
      = mapE createClass (retained cs)"
    by (simp add: orEmpty_def retained_def split: option.split)
  have desc: "(case mods of None \<Rightarrow> [] | Some l \<Rightarrow> map (\<lambda>m. case createModule m of Inl e \<Rightarrow> None | Inr r \<Rightarrow> Some r) l)
      = map (\<lambda>m. case createModule m of Inl e \<Rightarrow> None | Inr r \<Rightarrow> Some r) (orEmpty mods)"
    by (simp add: orEmpty_def split: option.split)
  show ?thesis
  proof (cases "mapE createModule (orEmpty mods)")
    case (Inl e)
    from caught_has_None [OF this]
    show ?thesis
      by (simp add: createModule.simps own_m own_c desc Inl membersOf_None split: sum.split)
  next
    case (Inr ds)
    from caught_all_Some [OF this]
    show ?thesis
      by (simp add: createModule.simps own_m own_c desc Inr membersOf_Some flatten_own_nested
          split: sum.split)
  qed
qed

subsection \<open>Failures and how they spread\<close>

lemma set_encountered:
  "set (encountered (RawModule nm ms cs mods)) =
     set (orEmpty ms)
     \<union> (\<Union>c \<in> set (retained cs). set (orEmpty (c_methods c)))
     \<union> (\<Union>d \<in> set (orEmpty mods). set (encountered d))"
proof (cases mods)
  case None
  then show ?thesis by (simp add: encountered_def orEmpty_def)
next
  case (Some l)
  then show ?thesis by (simp add: encountered_def orEmpty_def) blast
qed

lemma createMethod_bad_signatures:
  "signatures m = Some sigs \<Longrightarrow> length sigs \<noteq> 1 \<Longrightarrow> createMethod m = Inl AssertionError"
  by (simp add: createMethod_def)

lemma createClass_bad_method:
  assumes "m \<in> set (orEmpty (c_methods c))" "createMethod m = Inl e"
  shows "\<exists>e'. createClass c = Inl e'"
proof (cases "c_methods c")
  case None
  then show ?thesis by (simp add: createClass_def)
next
  case (Some l)
  with assms have "\<exists>x\<in>set l. \<exists>e. createMethod x = Inl e"
    by (auto simp: orEmpty_def)
  then obtain e' where "mapE createMethod l = Inl e'"
    using mapE_Inl_iff [of createMethod l] by blast
  with Some show ?thesis by (simp add: createClass_def)
qed

lemma createModule_own_method_fails:
  "mapE createMethod (orEmpty ms) = Inl e \<Longrightarrow> createModule (RawModule nm ms cs mods) = Inl e"
  by (simp add: createModule_cases)

lemma createModule_own_class_fails:
  "mapE createClass (retained cs) = Inl e \<Longrightarrow> \<exists>e'. createModule (RawModule nm ms cs mods) = Inl e'"
  by (simp add: createModule_cases split: sum.split)

lemma createModule_descendant_fails:
  "mapE createModule (orEmpty mods) = Inl e \<Longrightarrow> \<exists>e'. createModule (RawModule nm ms cs mods) = Inl e'"
  by (simp add: createModule_cases split: sum.split)

lemma createModule_bad_method:
  "m \<in> set (encountered md) \<Longrightarrow> createMethod m = Inl e \<Longrightarrow> \<exists>e'. createModule md = Inl e'"
proof (induction md rule: rawMethods.induct)
  case (1 nm ms cs mods)
  from "1.prems"(1) consider
      (own) "m \<in> set (orEmpty ms)"
    | (cls) c where "c \<in> set (retained cs)" "m \<in> set (orEmpty (c_methods c))"
    | (desc) d where "d \<in> set (orEmpty mods)" "m \<in> set (encountered d)"
    unfolding set_encountered by blast
  then show ?case
  proof cases
    case own
    with "1.prems"(2) have "\<exists>e. mapE createMethod (orEmpty ms) = Inl e"
      using mapE_Inl_iff [of createMethod "orEmpty ms"] by blast
    then show ?thesis using createModule_own_method_fails by blast
  next
    case cls
    then have "\<exists>e. createClass c = Inl e"
      using createClass_bad_method "1.prems"(2) by blast
    with cls(1) have "\<exists>e. mapE createClass (retained cs) = Inl e"
      using mapE_Inl_iff [of createClass "retained cs"] by blast
    then show ?thesis using createModule_own_class_fails by blast
  next
    case desc
    from desc(1) obtain l where l: "mods = Some l" "d \<in> set l"
      by (auto simp: orEmpty_def split: option.splits)
    have "\<exists>e. createModule d = Inl e"
      using "1.IH" [OF l desc(2) "1.prems"(2)] .
    with desc(1) have "\<exists>e. mapE createModule (orEmpty mods) = Inl e"
      using mapE_Inl_iff [of createModule "orEmpty mods"] by blast
    then show ?thesis using createModule_descendant_fails by blast
  qed
qed

lemma loadModules_fails:
  "moduleName \<in> set names \<Longrightarrow> createModuleForVersion fetch moduleName None = Inl e \<Longrightarrow>
   \<exists>e'. loadModules fetch names = Inl e'"
  by (induction names) (auto split: sum.splits)

lemma run_load_fails:
  "loadModules fetchOld oldModuleList = Inl e \<or> loadModules fetchNew newModuleList = Inl e \<Longrightarrow>
   run fetchOld oldModuleList fetchNew newModuleList = ([], 1)"
  by (auto simp: run_def split: sum.splits)

lemma run_module_fails:
  assumes "(moduleName \<in> set oldModuleList \<and> createModuleForVersion fetchOld moduleName None = Inl e)
         \<or> (moduleName \<in> set newModuleList \<and> createModuleForVersion fetchNew moduleName None = Inl e)"
  shows "run fetchOld oldModuleList fetchNew newModuleList = ([], 1)"
  using assms loadModules_fails run_load_fails by metis

lemma createModuleForVersion_top:
  "fetch moduleName = Inr doc \<Longrightarrow> doc_modules doc = Some [md] \<Longrightarrow>
   createModuleForVersion fetch moduleName None = map_sum id Some (createModule md)"
  by (simp add: createModuleForVersion_def)

lemma createModule_succeeds:
  assumes "mapE createMethod (orEmpty ms) = Inr ownM"
    and "mapE createClass (retained cs) = Inr ownC"
    and "list_all2 (\<lambda>d r. createModule d = Inr r) (orEmpty mods) rs"
  shows "createModule (RawModule nm ms cs mods) =
           Inr \<lparr> mod_name = nm,
                 methods = ownM @ concat (map methods rs),
                 classes = ownC @ concat (map classes rs) \<rparr>"
proof -
  from assms(3) have "mapE createModule (orEmpty mods) = Inr rs"
    by (rule mapE_Inr_I)
  with assms(1,2) show ?thesis
    by (simp add: createModule_cases)
qed

lemma createModule_Inr_D:
  assumes "createModule (RawModule nm ms cs mods) = Inr r"
  shows "\<exists>ownM ownC rs.
           mapE createMethod (orEmpty ms) = Inr ownM
         \<and> mapE createClass (retained cs) = Inr ownC
         \<and> list_all2 (\<lambda>d r'. createModule d = Inr r') (orEmpty mods) rs
         \<and> r = \<lparr> mod_name = nm,
                   methods = ownM @ concat (map methods rs),
                   classes = ownC @ concat (map classes rs) \<rparr>"
proof -
  from assms obtain ownM ownC rs where
    "mapE createMethod (orEmpty ms) = Inr ownM"
    "mapE createClass (retained cs) = Inr ownC"
    "mapE createModule (orEmpty mods) = Inr rs"
    "r = \<lparr> mod_name = nm,
            methods = ownM @ concat (map methods rs),
            classes = ownC @ concat (map classes rs) \<rparr>"
    by (auto simp: createModule_cases split: sum.splits)
  moreover from this(3) have "list_all2 (\<lambda>d r'. createModule d = Inr r') (orEmpty mods) rs"
    by (rule mapE_Inr_D)
  ultimately show ?thesis by blast
qed

lemma all_succeed_list_all2:
  "\<forall>x\<in>set xs. \<exists>y. f x = Inr y \<Longrightarrow> \<exists>ys. list_all2 (\<lambda>x y. f x = Inr y) xs ys"
proof (induction xs)
  case Nil
  show ?case by simp
next
  case (Cons x xs)
  then obtain y ys where "f x = Inr y" "list_all2 (\<lambda>x y. f x = Inr y) xs ys"
    by auto
  then have "list_all2 (\<lambda>x y. f x = Inr y) (x # xs) (y # ys)" by simp
  then show ?case by blast
qed

lemma loadModules_skip:
  "createModuleForVersion fetch moduleName None = Inr None \<Longrightarrow>
   loadModules fetch (before @ moduleName # after) = loadModules fetch (before @ after)"
  by (induction before) (simp_all split: sum.split)

subsection \<open>The diff loop\<close>

lemma pad_short: "length str \<le> n \<Longrightarrow> pad str n = Inr (str @ replicate (n - length str) (CHR '' ''))"
  by (simp add: pad_def)

lemma pad_long: "n < length str \<Longrightarrow> pad str n = Inl RangeError"
  by (simp add: pad_def)

lemma find_append_unmatched:
  "\<not> P n \<Longrightarrow> find P (before @ n # after) = find P (before @ after)"
  by (induction before) simp_all

lemma diffLoop_cong:
  "(\<And>oldModule. oldModule \<in> set oldModules \<Longrightarrow>
       diffModule newModules oldModule = diffModule newModules' oldModule) \<Longrightarrow>
   diffLoop oldModules newModules = diffLoop oldModules newModules'"
  by (induction oldModules) (simp_all split: sum.split)

lemma diffLoop_all_written:
  "list_all2 (\<lambda>oldModule ls. diffModule newModules oldModule = Inr ls) oldModules blocks \<Longrightarrow>
   diffLoop oldModules newModules = (concat blocks, None)"
  by (induction rule: list_all2_induct) simp_all

lemma diffLoop_throws:
  "oldModule \<in> set oldModules \<Longrightarrow> diffModule newModules oldModule = Inl e \<Longrightarrow>
   \<exists>out e'. diffLoop oldModules newModules = (out, Some e')"
  by (induction oldModules) (auto split: sum.splits prod.splits)

lemma newMethodsOf_newlyIntroduced: "newMethodsOf oldModule newModule = newlyIntroduced oldModule newModule"
  by (simp add: newMethodsOf_def newlyIntroduced_def)

lemma diffModule_block:
  assumes "find (\<lambda>m. mod_name m = mod_name oldModule) newModules = Some newModule"
    and "newlyIntroduced oldModule newModule \<noteq> [] \<longrightarrow> length (mod_name newModule) \<le> 24"
  shows "diffModule newModules oldModule = Inr (reportBlock oldModule newModule)"
  using assms
  by (simp add: diffModule_def newMethodsOf_newlyIntroduced reportBlock_def methodLine_def
      pad_short Let_def)

lemma diffModule_long_name:
  assumes "find (\<lambda>m. mod_name m = mod_name oldModule) newModules = Some newModule"
    and "newMethodsOf oldModule newModule \<noteq> []"
    and "24 < length (mod_name newModule)"
  shows "diffModule newModules oldModule = Inl RangeError"
  using assms by (simp add: diffModule_def pad_long Let_def)

text \<open>
  Where no callback throws, the loop writes what the specification describes: when every
  module of the older set has a counterpart of the same name in the newer set (the first
  one is taken) and \<^verbatim>\<open>pad\<close> accepts the name of every counterpart with new methods, the
  methods the code reports for a pair are the newly introduced ones, the callback writes
  the block of the pair, empty exactly when there is no such method, and the loop writes
  these blocks in the order of the older set.
\<close>

lemma diffLoop_writes_blocks:
  assumes "list_all2
             (\<lambda>oldModule newModule.
                 find (\<lambda>m. mod_name m = mod_name oldModule) newModules = Some newModule
               \<and> (newlyIntroduced oldModule newModule \<noteq> []
                    \<longrightarrow> length (mod_name newModule) \<le> 24))
             oldModules matched"
  shows "list_all2
           (\<lambda>oldModule newModule.
               newMethodsOf oldModule newModule = newlyIntroduced oldModule newModule
             \<and> diffModule newModules oldModule = Inr (reportBlock oldModule newModule)
             \<and> (reportBlock oldModule newModule = []
                  \<longleftrightarrow> newlyIntroduced oldModule newModule = []))
           oldModules matched
       \<and> diffLoop oldModules newModules = (concat (map2 reportBlock oldModules matched), None)"
proof -
  from assms
  have each: "list_all2
           (\<lambda>oldModule newModule.
               newMethodsOf oldModule newModule = newlyIntroduced oldModule newModule
             \<and> diffModule newModules oldModule = Inr (reportBlock oldModule newModule)
             \<and> (reportBlock oldModule newModule = []
                  \<longleftrightarrow> newlyIntroduced oldModule newModule = []))
           oldModules matched"
    by (rule list_all2_mono)
       (simp add: newMethodsOf_newlyIntroduced diffModule_block, simp add: reportBlock_def)
  then have "list_all2 (\<lambda>oldModule ls. diffModule newModules oldModule = Inr ls)
               oldModules (map2 reportBlock oldModules matched)"
    by (induction rule: list_all2_induct) simp_all
  then have "diffLoop oldModules newModules
               = (concat (map2 reportBlock oldModules matched), None)"
    by (rule diffLoop_all_written)
  with each show ?thesis by blast
qed

section \<open>Properties of the normalizer\<close>

text \<open>
  C3 (as stated, refuted). A method whose single signature has \<^verbatim>\<open>return.type\<close> equal to the
  empty string: the claim gives \<^verbatim>\<open>returnType\<close> the empty string, the code gives \<^verbatim>\<open>null\<close>,
  since \<^verbatim>\<open>returnValue || null\<close> replaces every falsy value.
\<close>

theorem createMethod_empty_type_is_null:
  "createMethod \<lparr> m_name = ''f'', textRaw = ''f()'',
       signatures = Some [\<lparr> sig_return = Some \<lparr> ret_type = Some '''' \<rparr> \<rparr>] \<rparr>
   = Inr \<lparr> name = ''f'', signature = ''f()'', returnType = None \<rparr>
   \<and> (None :: string option) \<noteq> Some ''''"
  by (simp add: createMethod_def)

text \<open>
  C3 (amended). For a raw method with exactly one signature, \<^verbatim>\<open>createMethod\<close> returns a
  method whose \<^verbatim>\<open>name\<close> is the raw name, whose \<^verbatim>\<open>signature\<close> is \<^verbatim>\<open>textRaw\<close>, and whose
  \<^verbatim>\<open>returnType\<close> is the string \<^verbatim>\<open>signatures[0].return.type\<close> when that field is present and
  not the empty string, and \<^verbatim>\<open>null\<close> when there is no \<^verbatim>\<open>return\<close>, no \<^verbatim>\<open>type\<close>, or the type
  is the empty string.
\<close>

theorem createMethod_one_signature:
  assumes "signatures m = Some [s]"
  shows "\<exists>r. createMethod m = Inr r
           \<and> name r = m_name m
           \<and> signature r = textRaw m
           \<and> (sig_return s = None \<longrightarrow> returnType r = None)
           \<and> (\<forall>ret. sig_return s = Some ret \<and> ret_type ret = None \<longrightarrow> returnType r = None)
           \<and> (\<forall>ret t. sig_return s = Some ret \<and> ret_type ret = Some t \<and> t \<noteq> ''''
                  \<longrightarrow> returnType r = Some t)
           \<and> (\<forall>ret. sig_return s = Some ret \<and> ret_type ret = Some ''''
                  \<longrightarrow> returnType r = None)"
  using assms by (auto simp: createMethod_def)

theorem createMethod_one_signature_witness:
  "\<exists>r. createMethod \<lparr> m_name = ''existsSync'', textRaw = ''fs.existsSync(path)'',
            signatures = Some [\<lparr> sig_return = Some \<lparr> ret_type = Some ''boolean'' \<rparr> \<rparr>] \<rparr> = Inr r
       \<and> name r = ''existsSync''
       \<and> signature r = ''fs.existsSync(path)''
       \<and> returnType r = Some ''boolean''"
  using createMethod_one_signature
    [of "\<lparr> m_name = ''existsSync'', textRaw = ''fs.existsSync(path)'',
            signatures = Some [\<lparr> sig_return = Some \<lparr> ret_type = Some ''boolean'' \<rparr> \<rparr>] \<rparr>"
        "\<lparr> sig_return = Some \<lparr> ret_type = Some ''boolean'' \<rparr> \<rparr>"]
  by simp

text \<open>
  C1 (the code departs from the claim). A parent with two descendants, the first holding a
  method with two signatures, the second well-formed. The exception of the first
  descendant is caught and its slot becomes \<^verbatim>\<open>null\<close>; \<^verbatim>\<open>modules.map(m => m.methods)\<close> then
  reads a property of \<^verbatim>\<open>null\<close>, so the parent throws a TypeError instead of returning the
  members of the second descendant.
\<close>

theorem failed_descendant_aborts_parent:
  "createModule
     (RawModule ''fs'' (Some [\<lparr> m_name = ''readFile'', textRaw = ''fs.readFile()'',
                               signatures = Some [\<lparr> sig_return = None \<rparr>] \<rparr>]) None
        (Some [RawModule ''a'' (Some [\<lparr> m_name = ''f'', textRaw = ''f()'',
                                  signatures = Some [\<lparr> sig_return = None \<rparr>,
                                                     \<lparr> sig_return = None \<rparr>] \<rparr>]) None None,
               RawModule ''b'' (Some [\<lparr> m_name = ''g'', textRaw = ''g()'',
                                  signatures = Some [\<lparr> sig_return = None \<rparr>] \<rparr>]) None None]))
   = Inl TypeError
   \<and> createModule
       (RawModule ''b'' (Some [\<lparr> m_name = ''g'', textRaw = ''g()'',
                                  signatures = Some [\<lparr> sig_return = None \<rparr>] \<rparr>]) None None)
     = Inr \<lparr> mod_name = ''b'',
             methods = [\<lparr> name = ''g'', signature = ''g()'', returnType = None \<rparr>],
             classes = [] \<rparr>"
  by (simp add: createModule_cases createMethod_def orEmpty_def retained_def)

text \<open>
  C4. A raw method descriptor that normalization reaches (a method of the module, of one
  of its retained classes, or of a descendant at any depth) and whose \<^verbatim>\<open>signatures\<close> array
  does not have exactly one element makes the normalization of the module throw; and when
  the module is the single entry of a top-level document of either version, the call of
  \<^verbatim>\<open>createModuleForVersion\<close> throws and the run ends with exit code 1 and nothing written to
  standard output.
\<close>

theorem bad_signature_count_is_fatal:
  assumes "m \<in> set (encountered md)"
    and "signatures m = Some sigs"
    and "length sigs \<noteq> 1"
    and "doc_modules doc = Some [md]"
    and "(moduleName \<in> set oldModuleList \<and> fetchOld moduleName = Inr doc)
       \<or> (moduleName \<in> set newModuleList \<and> fetchNew moduleName = Inr doc)"
  shows "(\<exists>e. createModule md = Inl e)
       \<and> (\<forall>fetch. fetch moduleName = Inr doc
             \<longrightarrow> (\<exists>e. createModuleForVersion fetch moduleName None = Inl e))
       \<and> run fetchOld oldModuleList fetchNew newModuleList = ([], 1)"
proof -
  have "createMethod m = Inl AssertionError"
    using assms(2,3) by (rule createMethod_bad_signatures)
  with assms(1) obtain e where e: "createModule md = Inl e"
    using createModule_bad_method by blast
  have top: "createModuleForVersion fetch moduleName None = Inl e"
    if "fetch moduleName = Inr doc" for fetch
    using that assms(4) e by (simp add: createModuleForVersion_top [of fetch moduleName doc md])
  from assms(5) top
  have "(moduleName \<in> set oldModuleList
           \<and> createModuleForVersion fetchOld moduleName None = Inl e)
       \<or> (moduleName \<in> set newModuleList
           \<and> createModuleForVersion fetchNew moduleName None = Inl e)"
    by blast
  then have "run fetchOld oldModuleList fetchNew newModuleList = ([], 1)"
    by (rule run_module_fails)
  with e top show ?thesis by blast
qed

theorem bad_signature_count_is_fatal_witness:
  "run (\<lambda>n. Inr \<lparr> doc_modules = Some [RawModule ''fs'' None None None] \<rparr>) [''fs'']
       (\<lambda>n. Inr \<lparr> doc_modules = Some
          [RawModule ''fs'' None None
             (Some [RawModule ''promises''
                (Some [\<lparr> m_name = ''open'', textRaw = ''open()'',
                         signatures = Some [\<lparr> sig_return = None \<rparr>,
                                            \<lparr> sig_return = None \<rparr>] \<rparr>]) None None])] \<rparr>)
       [''fs'']
   = ([], 1)"
  (is "run ?fetchOld ?names (\<lambda>n. Inr ?doc) ?names = _")
proof -
  let ?sigs = "[\<lparr> sig_return = None \<rparr>, \<lparr> sig_return = None \<rparr>]"
  let ?m = "\<lparr> m_name = ''open'', textRaw = ''open()'', signatures = Some ?sigs \<rparr>"
  let ?md = "RawModule ''fs'' None None
               (Some [RawModule ''promises'' (Some [?m]) None None])"
  have h1: "?m \<in> set (encountered ?md)"
    by (simp add: encountered_def orEmpty_def retained_def)
  have h2: "signatures ?m = Some ?sigs" by simp
  have h3: "length ?sigs \<noteq> 1" by simp
  have h4: "doc_modules ?doc = Some [?md]" by simp
  have h5: "(''fs'' \<in> set ?names \<and> ?fetchOld ''fs'' = Inr ?doc)
          \<or> (''fs'' \<in> set ?names \<and> (\<lambda>n. Inr ?doc) ''fs'' = Inr ?doc)"
    by simp
  from bad_signature_count_is_fatal
         [where fetchOld = ?fetchOld and fetchNew = "\<lambda>n. Inr ?doc" and moduleName = "''fs''"
            and oldModuleList = ?names and newModuleList = ?names, OF h1 h2 h3 h4 h5]
  show ?thesis
    by blast
qed

text \<open>
  C7. Called without a descriptor, \<^verbatim>\<open>createModuleForVersion\<close> fails the assertion of line
  85 when the \<^verbatim>\<open>modules\<close> array of the fetched document does not have exactly one entry,
  and a run that reaches such a document in either version ends with exit code 1 and no
  output. Called with a descriptor, as the recursion does, it makes no such test: whatever
  the number of entries of the descriptor's \<^verbatim>\<open>modules\<close> array, it returns a module as soon as
  the descriptor's own members and every entry normalize.
\<close>

theorem one_module_at_top_level_only:
  "(fetch moduleName = Inr doc \<and> doc_modules doc = Some l \<and> length l \<noteq> 1
      \<longrightarrow> createModuleForVersion fetch moduleName None = Inl AssertionError)
   \<and> (doc_modules doc = Some l \<and> length l \<noteq> 1
        \<and> ((moduleName \<in> set oldModuleList \<and> fetchOld moduleName = Inr doc)
           \<or> (moduleName \<in> set newModuleList \<and> fetchNew moduleName = Inr doc))
      \<longrightarrow> run fetchOld oldModuleList fetchNew newModuleList = ([], 1))
   \<and> (mapE createMethod (orEmpty ms) = Inr ownM
        \<and> mapE createClass (retained cs) = Inr ownC
        \<and> (\<forall>d \<in> set ds. \<exists>r. createModule d = Inr r)
      \<longrightarrow> (\<exists>r. createModuleForVersion fetch nm (Some (RawModule nm ms cs (Some ds)))
                  = Inr (Some r)))"
proof (intro conjI impI)
  assume "fetch moduleName = Inr doc \<and> doc_modules doc = Some l \<and> length l \<noteq> 1"
  then show "createModuleForVersion fetch moduleName None = Inl AssertionError"
    by (simp add: createModuleForVersion_def)
next
  assume a: "doc_modules doc = Some l \<and> length l \<noteq> 1
        \<and> ((moduleName \<in> set oldModuleList \<and> fetchOld moduleName = Inr doc)
           \<or> (moduleName \<in> set newModuleList \<and> fetchNew moduleName = Inr doc))"
  have "createModuleForVersion f moduleName None = Inl AssertionError"
    if "f moduleName = Inr doc" for f
    using that a by (simp add: createModuleForVersion_def)
  with a have "(moduleName \<in> set oldModuleList
           \<and> createModuleForVersion fetchOld moduleName None = Inl AssertionError)
       \<or> (moduleName \<in> set newModuleList
           \<and> createModuleForVersion fetchNew moduleName None = Inl AssertionError)"
    by blast
  then show "run fetchOld oldModuleList fetchNew newModuleList = ([], 1)"
    by (rule run_module_fails)
next
  assume a: "mapE createMethod (orEmpty ms) = Inr ownM
        \<and> mapE createClass (retained cs) = Inr ownC
        \<and> (\<forall>d \<in> set ds. \<exists>r. createModule d = Inr r)"
  then obtain rs where "list_all2 (\<lambda>d r. createModule d = Inr r) ds rs"
    using all_succeed_list_all2 [of ds createModule] by blast
  then have "list_all2 (\<lambda>d r. createModule d = Inr r) (orEmpty (Some ds)) rs"
    by (simp add: orEmpty_def)
  with a have "\<exists>r. createModule (RawModule nm ms cs (Some ds)) = Inr r"
    using createModule_succeeds [of ms ownM cs ownC "Some ds" rs nm] by simp
  then show "\<exists>r. createModuleForVersion fetch nm (Some (RawModule nm ms cs (Some ds)))
                  = Inr (Some r)"
    by (auto simp: createModuleForVersion_def)
qed

theorem one_module_at_top_level_only_witness:
  "createModuleForVersion
       (\<lambda>n. Inr \<lparr> doc_modules = Some [RawModule ''a'' None None None,
                                       RawModule ''b'' None None None] \<rparr>) ''fs'' None
     = Inl AssertionError
   \<and> run (\<lambda>n. Inr \<lparr> doc_modules = Some [RawModule ''a'' None None None,
                                          RawModule ''b'' None None None] \<rparr>) [''fs'']
          (\<lambda>n. Inl FetchError) []
     = ([], 1)
   \<and> (\<exists>r. createModuleForVersion
              (\<lambda>n. Inr \<lparr> doc_modules = Some [RawModule ''a'' None None None,
                                              RawModule ''b'' None None None] \<rparr>) ''fs''
              (Some (RawModule ''fs'' None None
                       (Some [RawModule ''a'' None None None,
                              RawModule ''b'' None None None])))
            = Inr (Some r))"
  using one_module_at_top_level_only
    [where fetch = "\<lambda>n. Inr \<lparr> doc_modules = Some [RawModule ''a'' None None None,
                                                  RawModule ''b'' None None None] \<rparr>"
       and fetchOld = "\<lambda>n. Inr \<lparr> doc_modules = Some [RawModule ''a'' None None None,
                                                  RawModule ''b'' None None None] \<rparr>"
       and fetchNew = "\<lambda>n. Inl FetchError"
       and moduleName = "''fs''" and nm = "''fs''"
       and doc = "\<lparr> doc_modules = Some [RawModule ''a'' None None None,
                                       RawModule ''b'' None None None] \<rparr>"
       and l = "[RawModule ''a'' None None None, RawModule ''b'' None None None]"
       and oldModuleList = "[''fs'']" and newModuleList = "[]"
       and ms = None and cs = None and ownM = "[]" and ownC = "[]"
       and ds = "[RawModule ''a'' None None None, RawModule ''b'' None None None]"]
  by (simp add: orEmpty_def retained_def createModule_cases)

text \<open>
  C8. When the fetched top-level document has no \<^verbatim>\<open>modules\<close> field,
  \<^verbatim>\<open>createModuleForVersion\<close> returns \<^verbatim>\<open>null\<close> without throwing, and the loop that builds the
  module set goes on: the set it builds is the one it builds from the list without that
  module name, so nothing stands in for the module and the modules after it are still
  processed.
\<close>

theorem missing_modules_field_is_skipped:
  assumes "fetch moduleName = Inr doc" and "doc_modules doc = None"
  shows "createModuleForVersion fetch moduleName None = Inr None
       \<and> loadModules fetch (before @ moduleName # after) = loadModules fetch (before @ after)"
proof -
  from assms have "createModuleForVersion fetch moduleName None = Inr None"
    by (simp add: createModuleForVersion_def)
  then show ?thesis
    using loadModules_skip by blast
qed

theorem missing_modules_field_is_skipped_witness:
  "createModuleForVersion
      (\<lambda>n. if n = ''addons'' then Inr \<lparr> doc_modules = None \<rparr>
            else Inr \<lparr> doc_modules = Some [RawModule n None None None] \<rparr>) ''addons'' None
     = Inr None
   \<and> loadModules
      (\<lambda>n. if n = ''addons'' then Inr \<lparr> doc_modules = None \<rparr>
            else Inr \<lparr> doc_modules = Some [RawModule n None None None] \<rparr>)
      [''fs'', ''addons'', ''os'']
     = Inr [\<lparr> mod_name = ''fs'', methods = [], classes = [] \<rparr>,
            \<lparr> mod_name = ''os'', methods = [], classes = [] \<rparr>]"
  (is "createModuleForVersion ?fetch _ _ = _ \<and> _")
proof -
  have h1: "?fetch ''addons'' = Inr \<lparr> doc_modules = None \<rparr>" by simp
  have h2: "doc_modules \<lparr> doc_modules = None \<rparr> = None" by simp
  from missing_modules_field_is_skipped
         [of ?fetch "''addons''" "\<lparr> doc_modules = None \<rparr>" "[''fs'']" "[''os'']", OF h1 h2]
  show ?thesis
    by (simp add: createModuleForVersion_def createModule_cases orEmpty_def retained_def)
qed

text \<open>
  C2 (as stated, refuted). A class whose \<^verbatim>\<open>methods\<close> array is present but empty: the claim
  drops it, the code keeps it, with no methods, since the filter of line 102 tests the
  field and an empty array is truthy.
\<close>

theorem class_with_empty_methods_is_kept:
  "createModule
     (RawModule ''events'' None
        (Some [\<lparr> c_name = ''EventEmitter'', c_methods = Some [] \<rparr>]) None)
   = Inr \<lparr> mod_name = ''events'', methods = [],
           classes = [\<lparr> class_methods = [], class_name = ''EventEmitter'' \<rparr>] \<rparr>"
  by (simp add: createModule_cases createClass_def orEmpty_def retained_def)

text \<open>
  C2 (amended). For every successfully normalized module, the classes of the output are
  first the module's own classes, then the classes of the normalized descendants; the own
  part has, in order, one entry for each raw class whose \<^verbatim>\<open>methods\<close> field is present
  (empty or not) and none for a raw class without the field. The entry carries the name
  of the raw class and its normalized methods.
\<close>

theorem classes_with_methods_field_are_kept:
  assumes "createModule (RawModule nm ms cs mods) = Inr r"
  shows "\<exists>own rs.
           classes r = own @ concat (map classes rs)
         \<and> list_all2 (\<lambda>d r'. createModule d = Inr r') (orEmpty mods) rs
         \<and> list_all2 (\<lambda>c k. class_name k = c_name c
                            \<and> (\<exists>l. c_methods c = Some l
                                   \<and> mapE createMethod l = Inr (class_methods k)))
             (filter (\<lambda>c. c_methods c \<noteq> None) (orEmpty cs)) own"
proof -
  from createModule_Inr_D [OF assms] obtain ownM ownC rs where
    c: "mapE createClass (retained cs) = Inr ownC"
    and d: "list_all2 (\<lambda>d r'. createModule d = Inr r') (orEmpty mods) rs"
    and r: "r = \<lparr> mod_name = nm,
                   methods = ownM @ concat (map methods rs),
                   classes = ownC @ concat (map classes rs) \<rparr>"
    by blast
  from c have "list_all2 (\<lambda>c k. createClass c = Inr k) (retained cs) ownC"
    by (rule mapE_Inr_D)
  then have "list_all2 (\<lambda>c k. class_name k = c_name c
                            \<and> (\<exists>l. c_methods c = Some l
                                   \<and> mapE createMethod l = Inr (class_methods k)))
             (retained cs) ownC"
    by (rule list_all2_mono) (auto simp: createClass_def split: option.splits sum.splits)
  with d r show ?thesis
    unfolding retained_def by auto
qed

theorem classes_with_methods_field_are_kept_witness:
  "createModule
     (RawModule ''m'' None
        (Some [\<lparr> c_name = ''A'', c_methods = Some [] \<rparr>,
               \<lparr> c_name = ''B'', c_methods = None \<rparr>,
               \<lparr> c_name = ''C'', c_methods = Some [\<lparr> m_name = ''f'', textRaw = ''f()'',
                      signatures = Some [\<lparr> sig_return = None \<rparr>] \<rparr>] \<rparr>])
        None)
   = Inr \<lparr> mod_name = ''m'', methods = [],
           classes = [\<lparr> class_methods = [], class_name = ''A'' \<rparr>,
                      \<lparr> class_methods = [\<lparr> name = ''f'', signature = ''f()'', returnType = None \<rparr>],
                        class_name = ''C'' \<rparr>] \<rparr>
   \<and> (\<exists>own.
        [\<lparr> class_methods = [], class_name = ''A'' \<rparr>,
         \<lparr> class_methods = [\<lparr> name = ''f'', signature = ''f()'', returnType = None \<rparr>],
           class_name = ''C'' \<rparr>] = own
      \<and> list_all2 (\<lambda>c k. class_name k = c_name c
                       \<and> (\<exists>l. c_methods c = Some l
                              \<and> mapE createMethod l = Inr (class_methods k)))
          [\<lparr> c_name = ''A'', c_methods = Some [] \<rparr>,
           \<lparr> c_name = ''C'', c_methods = Some [\<lparr> m_name = ''f'', textRaw = ''f()'',
                  signatures = Some [\<lparr> sig_return = None \<rparr>] \<rparr>] \<rparr>] own)"
  (is "createModule ?md = Inr ?r \<and> _")
proof -
  have h: "createModule ?md = Inr ?r"
    by (simp add: createModule_cases createClass_def createMethod_def orEmpty_def retained_def)
  from classes_with_methods_field_are_kept [OF h] h show ?thesis
    by (simp add: orEmpty_def)
qed

text \<open>
  C9. For every successfully normalized module, \<^verbatim>\<open>methods\<close> is the module's own normalized
  methods followed by the \<^verbatim>\<open>methods\<close> of each normalized descendant in the order of
  \<^verbatim>\<open>modules\<close>, and \<^verbatim>\<open>classes\<close> likewise. As each descendant is normalized by the same
  function, its part is own-first again: over the whole tree, \<^verbatim>\<open>methods\<close> and \<^verbatim>\<open>classes\<close>
  are the normalized forms of \<open>rawMethods\<close> and \<open>rawClasses\<close>, the own-first,
  descendant-order traversals of the raw tree.
\<close>

theorem members_are_own_then_descendants:
  assumes "createModule md = Inr r"
  shows "(\<exists>ownM ownC rs.
            mapE createMethod (orEmpty (md_methods md)) = Inr ownM
          \<and> mapE createClass (retained (md_classes md)) = Inr ownC
          \<and> list_all2 (\<lambda>d r'. createModule d = Inr r') (orEmpty (md_modules md)) rs
          \<and> methods r = ownM @ concat (map methods rs)
          \<and> classes r = ownC @ concat (map classes rs))
       \<and> mapE createMethod (rawMethods md) = Inr (methods r)
       \<and> mapE createClass (rawClasses md) = Inr (classes r)"
  using assms
proof (induction md arbitrary: r rule: rawMethods.induct)
  case (1 nm ms cs mods)
  from createModule_Inr_D [OF "1.prems"] obtain ownM ownC rs where
    m: "mapE createMethod (orEmpty ms) = Inr ownM"
    and c: "mapE createClass (retained cs) = Inr ownC"
    and d: "list_all2 (\<lambda>d r'. createModule d = Inr r') (orEmpty mods) rs"
    and r: "r = \<lparr> mod_name = nm,
                   methods = ownM @ concat (map methods rs),
                   classes = ownC @ concat (map classes rs) \<rparr>"
    by blast
  have ih: "mapE createMethod (rawMethods d) = Inr (methods r')
          \<and> mapE createClass (rawClasses d) = Inr (classes r')"
    if "d \<in> set (orEmpty mods)" "createModule d = Inr r'" for d r'
  proof -
    from that(1) obtain l where "mods = Some l" "d \<in> set l"
      by (auto simp: orEmpty_def split: option.splits)
    from "1.IH" [OF this that(2)] show ?thesis by blast
  qed
  from d have "list_all2 (\<lambda>d r'. mapE createMethod (rawMethods d) = Inr (methods r')
          \<and> mapE createClass (rawClasses d) = Inr (classes r')) (orEmpty mods) rs"
    by (rule list.rel_mono_strong) (rule ih)
  then have dm: "list_all2 (\<lambda>l x. mapE createMethod l = Inr x)
                   (map rawMethods (orEmpty mods)) (map methods rs)"
    and dc: "list_all2 (\<lambda>l x. mapE createClass l = Inr x)
                   (map rawClasses (orEmpty mods)) (map classes rs)"
    by (auto simp: list_all2_map1 list_all2_map2 elim: list_all2_mono)
  have rm: "rawMethods (RawModule nm ms cs mods)
              = orEmpty ms @ concat (map rawMethods (orEmpty mods))"
    and rc: "rawClasses (RawModule nm ms cs mods)
              = retained cs @ concat (map rawClasses (orEmpty mods))"
    by (simp_all add: orEmpty_def split: option.split)
  have "mapE createMethod (rawMethods (RawModule nm ms cs mods)) = Inr (methods r)"
    unfolding rm by (simp add: mapE_append m mapE_concat [OF dm] r)
  moreover
  have "mapE createClass (rawClasses (RawModule nm ms cs mods)) = Inr (classes r)"
    unfolding rc by (simp add: mapE_append c mapE_concat [OF dc] r)
  ultimately show ?case
    using m c d r by auto
qed
theorem members_are_own_then_descendants_witness:
  "createModule
     (RawModule ''p''
        (Some [\<lparr> m_name = ''a'', textRaw = ''a()'', signatures = Some [\<lparr> sig_return = None \<rparr>] \<rparr>])
        None
        (Some [RawModule ''q''
                 (Some [\<lparr> m_name = ''x'', textRaw = ''x()'', signatures = Some [\<lparr> sig_return = None \<rparr>] \<rparr>])
                 None
                 (Some [RawModule ''r''
                    (Some [\<lparr> m_name = ''z'', textRaw = ''z()'', signatures = Some [\<lparr> sig_return = None \<rparr>] \<rparr>])
                    None None]),
               RawModule ''s''
                 (Some [\<lparr> m_name = ''y'', textRaw = ''y()'', signatures = Some [\<lparr> sig_return = None \<rparr>] \<rparr>])
                 None None]))
   = Inr \<lparr> mod_name = ''p'',
           methods = [\<lparr> name = ''a'', signature = ''a()'', returnType = None \<rparr>,
                      \<lparr> name = ''x'', signature = ''x()'', returnType = None \<rparr>,
                      \<lparr> name = ''z'', signature = ''z()'', returnType = None \<rparr>,
                      \<lparr> name = ''y'', signature = ''y()'', returnType = None \<rparr>],
           classes = [] \<rparr>
   \<and> mapE createMethod
       (rawMethods
         (RawModule ''p''
            (Some [\<lparr> m_name = ''a'', textRaw = ''a()'', signatures = Some [\<lparr> sig_return = None \<rparr>] \<rparr>])
            None
            (Some [RawModule ''q''
                 (Some [\<lparr> m_name = ''x'', textRaw = ''x()'', signatures = Some [\<lparr> sig_return = None \<rparr>] \<rparr>])
                 None
                 (Some [RawModule ''r''
                    (Some [\<lparr> m_name = ''z'', textRaw = ''z()'', signatures = Some [\<lparr> sig_return = None \<rparr>] \<rparr>])
                    None None]),
               RawModule ''s''
                 (Some [\<lparr> m_name = ''y'', textRaw = ''y()'', signatures = Some [\<lparr> sig_return = None \<rparr>] \<rparr>])
                 None None])))
     = Inr [\<lparr> name = ''a'', signature = ''a()'', returnType = None \<rparr>,
            \<lparr> name = ''x'', signature = ''x()'', returnType = None \<rparr>,
            \<lparr> name = ''z'', signature = ''z()'', returnType = None \<rparr>,
            \<lparr> name = ''y'', signature = ''y()'', returnType = None \<rparr>]"
  (is "createModule ?md = Inr ?r \<and> _")
proof -
  have h: "createModule ?md = Inr ?r"
    by (simp add: createModule_cases createMethod_def orEmpty_def retained_def)
  from members_are_own_then_descendants [OF h] h show ?thesis
    by simp
qed

section \<open>Properties of the diff reporter\<close>

text \<open>
  C5 (the code departs from the claim). A module present in both versions under a name of
  25 characters, with one method that only the newer version has. The methods the code
  computes for the pair are the newly introduced ones, here the method \<^verbatim>\<open>f\<close>, so the claim
  has a header line and one method line written. The code sets out to write them, but
  \<^verbatim>\<open>pad\<close> throws a RangeError while the header is built (\<^verbatim>\<open>Array\<close> of a negative length,
  with no guard for a name longer than the padding), so nothing is written and the loop
  ends with the exception.
\<close>

theorem long_name_block_is_not_written:
  "newMethodsOf
       \<lparr> mod_name = ''aaaaaaaaaaaaaaaaaaaaaaaaa'', methods = [], classes = [] \<rparr>
       \<lparr> mod_name = ''aaaaaaaaaaaaaaaaaaaaaaaaa'',
         methods = [\<lparr> name = ''f'', signature = ''f()'', returnType = None \<rparr>],
         classes = [] \<rparr>
     = [\<lparr> name = ''f'', signature = ''f()'', returnType = None \<rparr>]
   \<and> diffLoop
       [\<lparr> mod_name = ''aaaaaaaaaaaaaaaaaaaaaaaaa'', methods = [], classes = [] \<rparr>]
       [\<lparr> mod_name = ''aaaaaaaaaaaaaaaaaaaaaaaaa'',
          methods = [\<lparr> name = ''f'', signature = ''f()'', returnType = None \<rparr>],
          classes = [] \<rparr>]
     = ([], Some RangeError)"
  by (simp add: newMethodsOf_def diffModule_def pad_def)

text \<open>
  C6. A module of the newer set whose name no module of the older set has does not take
  part in the diff: with it or without it, the diff writes the same lines and ends the
  same way. The loop runs over the older set only, and such a module is never the result
  of a lookup by name.
\<close>

theorem newer_only_module_is_ignored:
  assumes "mod_name n \<notin> mod_name ` set oldModules"
  shows "diffLoop oldModules (before @ n # after) = diffLoop oldModules (before @ after)"
proof (rule diffLoop_cong)
  fix oldModule
  assume "oldModule \<in> set oldModules"
  with assms have "\<not> mod_name n = mod_name oldModule"
    by force
  then have "find (\<lambda>m. mod_name m = mod_name oldModule) (before @ n # after)
           = find (\<lambda>m. mod_name m = mod_name oldModule) (before @ after)"
    by (rule find_append_unmatched)
  then show "diffModule (before @ n # after) oldModule = diffModule (before @ after) oldModule"
    by (simp add: diffModule_def)
qed

theorem newer_only_module_is_ignored_witness:
  "diffLoop
     [\<lparr> mod_name = ''fs'', methods = [], classes = [] \<rparr>]
     [\<lparr> mod_name = ''worker_threads'',
        methods = [\<lparr> name = ''w'', signature = ''w()'', returnType = None \<rparr>], classes = [] \<rparr>,
      \<lparr> mod_name = ''fs'',
        methods = [\<lparr> name = ''x'', signature = ''x()'', returnType = None \<rparr>], classes = [] \<rparr>]
   = diffLoop
     [\<lparr> mod_name = ''fs'', methods = [], classes = [] \<rparr>]
     [\<lparr> mod_name = ''fs'',
        methods = [\<lparr> name = ''x'', signature = ''x()'', returnType = None \<rparr>], classes = [] \<rparr>]
   \<and> diffLoop
     [\<lparr> mod_name = ''fs'', methods = [], classes = [] \<rparr>]
     [\<lparr> mod_name = ''worker_threads'',
        methods = [\<lparr> name = ''w'', signature = ''w()'', returnType = None \<rparr>], classes = [] \<rparr>,
      \<lparr> mod_name = ''fs'',
        methods = [\<lparr> name = ''x'', signature = ''x()'', returnType = None \<rparr>], classes = [] \<rparr>]
   = ([''fs                       1 new'', ''- x: null''], None)"
  (is "diffLoop ?old [?w, ?fs] = _ \<and> _")
proof -
  have h: "mod_name ?w \<notin> mod_name ` set ?old" by simp
  have d: "decimal (Suc 0) = ''1''"
    by (simp add: decimal.simps)
  have p: "replicate 22 (CHR '' '') = ''                      ''"
    by (simp add: eval_nat_numeral)
  from newer_only_module_is_ignored [of ?w ?old "[]" "[?fs]", OF h] show ?thesis
    by (simp add: diffModule_def newMethodsOf_def pad_def methodLine_def d p)
qed

text \<open>
  C10. For a string of more than 24 characters \<^verbatim>\<open>pad\<close> throws (a RangeError, from the
  array of negative length), so for an older module whose counterpart has such a name and
  new methods the callback throws before anything is written, the diff loop ends with an
  exception, and a run that got as far as the diff exits with code 1. For a string of at
  most 24 characters \<^verbatim>\<open>pad\<close> returns the string followed by spaces up to exactly 24
  characters, and the header line is this padded name followed by a space, the count and
  \<^verbatim>\<open>new\<close>.
\<close>

theorem pad_throws_beyond_24:
  "(24 < length str \<longrightarrow>
      pad str 24 = Inl RangeError
    \<and> (find (\<lambda>m. mod_name m = mod_name oldModule) newModules = Some newModule
         \<and> mod_name newModule = str \<and> newMethodsOf oldModule newModule \<noteq> []
       \<longrightarrow> diffModule newModules oldModule = Inl RangeError
         \<and> (oldModule \<in> set oldModules
              \<longrightarrow> (\<exists>out e. diffLoop oldModules newModules = (out, Some e)))
         \<and> (oldModule \<in> set oldModules
              \<and> loadModules fetchOld oldModuleList = Inr oldModules
              \<and> loadModules fetchNew newModuleList = Inr newModules
              \<longrightarrow> snd (run fetchOld oldModuleList fetchNew newModuleList) = 1)))
   \<and> (length str \<le> 24 \<longrightarrow>
      pad str 24 = Inr (str @ replicate (24 - length str) (CHR '' ''))
    \<and> length (str @ replicate (24 - length str) (CHR '' '')) = 24
    \<and> (find (\<lambda>m. mod_name m = mod_name oldModule) newModules = Some newModule
         \<and> mod_name newModule = str \<and> newMethodsOf oldModule newModule \<noteq> []
       \<longrightarrow> diffModule newModules oldModule
             = Inr ((str @ replicate (24 - length str) (CHR '' '') @ '' ''
                       @ decimal (length (newMethodsOf oldModule newModule)) @ '' new'')
                    # map methodLine (newMethodsOf oldModule newModule))))"
proof (intro conjI impI)
  assume "24 < length str"
  then show "pad str 24 = Inl RangeError" by (rule pad_long)
next
  assume long: "24 < length str"
    and m: "find (\<lambda>m. mod_name m = mod_name oldModule) newModules = Some newModule
         \<and> mod_name newModule = str \<and> newMethodsOf oldModule newModule \<noteq> []"
  then show "diffModule newModules oldModule = Inl RangeError"
    using diffModule_long_name [of oldModule newModules newModule] by simp
next
  assume long: "24 < length str"
    and m: "find (\<lambda>m. mod_name m = mod_name oldModule) newModules = Some newModule
         \<and> mod_name newModule = str \<and> newMethodsOf oldModule newModule \<noteq> []"
    and el: "oldModule \<in> set oldModules"
  from long m have "diffModule newModules oldModule = Inl RangeError"
    using diffModule_long_name [of oldModule newModules newModule] by simp
  with el show "\<exists>out e. diffLoop oldModules newModules = (out, Some e)"
    by (rule diffLoop_throws)
next
  assume long: "24 < length str"
    and m: "find (\<lambda>m. mod_name m = mod_name oldModule) newModules = Some newModule
         \<and> mod_name newModule = str \<and> newMethodsOf oldModule newModule \<noteq> []"
    and ld: "oldModule \<in> set oldModules
              \<and> loadModules fetchOld oldModuleList = Inr oldModules
              \<and> loadModules fetchNew newModuleList = Inr newModules"
  from long m have "diffModule newModules oldModule = Inl RangeError"
    using diffModule_long_name [of oldModule newModules newModule] by simp
  with ld obtain out e where "diffLoop oldModules newModules = (out, Some e)"
    using diffLoop_throws by blast
  with ld show "snd (run fetchOld oldModuleList fetchNew newModuleList) = 1"
    by (simp add: run_def)
next
  assume "length str \<le> 24"
  then show "pad str 24 = Inr (str @ replicate (24 - length str) (CHR '' ''))"
    by (rule pad_short)
next
  assume "length str \<le> 24"
  then show "length (str @ replicate (24 - length str) (CHR '' '')) = 24"
    by simp
next
  assume "length str \<le> 24"
    and "find (\<lambda>m. mod_name m = mod_name oldModule) newModules = Some newModule
         \<and> mod_name newModule = str \<and> newMethodsOf oldModule newModule \<noteq> []"
  then show "diffModule newModules oldModule
             = Inr ((str @ replicate (24 - length str) (CHR '' '') @ '' ''
                       @ decimal (length (newMethodsOf oldModule newModule)) @ '' new'')
                    # map methodLine (newMethodsOf oldModule newModule))"
    by (simp add: diffModule_def pad_short Let_def)
qed

theorem pad_throws_beyond_24_witness:
  "pad ''aaaaaaaaaaaaaaaaaaaaaaaaa'' 24 = Inl RangeError
   \<and> diffModule
       [\<lparr> mod_name = ''aaaaaaaaaaaaaaaaaaaaaaaaa'',
          methods = [\<lparr> name = ''f'', signature = ''f()'', returnType = None \<rparr>],
          classes = [] \<rparr>]
       \<lparr> mod_name = ''aaaaaaaaaaaaaaaaaaaaaaaaa'', methods = [], classes = [] \<rparr>
     = Inl RangeError
   \<and> snd (run (\<lambda>n. Inr \<lparr> doc_modules = Some
                  [RawModule ''aaaaaaaaaaaaaaaaaaaaaaaaa'' None None None] \<rparr>) [''a'']
               (\<lambda>n. Inr \<lparr> doc_modules = Some
                  [RawModule ''aaaaaaaaaaaaaaaaaaaaaaaaa''
                     (Some [\<lparr> m_name = ''f'', textRaw = ''f()'',
                              signatures = Some [\<lparr> sig_return = None \<rparr>] \<rparr>]) None None] \<rparr>)
               [''a'']) = 1
   \<and> pad ''child_process'' 24 = Inr ''child_process           ''
   \<and> diffModule
       [\<lparr> mod_name = ''child_process'',
          methods = [\<lparr> name = ''f'', signature = ''f()'', returnType = None \<rparr>],
          classes = [] \<rparr>]
       \<lparr> mod_name = ''child_process'', methods = [], classes = [] \<rparr>
     = Inr [''child_process            1 new'', ''- f: null'']"
  (is "pad ?long 24 = _ \<and> diffModule [?newL] ?oldL = _ \<and> snd (run ?fo ?lo ?fn ?ln) = 1
       \<and> pad ?short 24 = _ \<and> diffModule [?newS] ?oldS = _")
proof -
  have d: "decimal (Suc 0) = ''1''"
    by (simp add: decimal.simps)
  have p: "replicate 11 (CHR '' '') = ''           ''"
    by (simp add: eval_nat_numeral)
  have l: "pad ?long 24 = Inl RangeError
    \<and> diffModule [?newL] ?oldL = Inl RangeError
    \<and> snd (run ?fo ?lo ?fn ?ln) = 1"
    using pad_throws_beyond_24
      [where str = ?long and oldModule = ?oldL and newModules = "[?newL]"
         and newModule = ?newL and oldModules = "[?oldL]"
         and fetchOld = ?fo and oldModuleList = ?lo
         and fetchNew = ?fn and newModuleList = ?ln]
    by (simp add: newMethodsOf_def createModuleForVersion_def createModule_cases
        createMethod_def orEmpty_def retained_def)
  have s: "pad ?short 24 = Inr ''child_process           ''
    \<and> diffModule [?newS] ?oldS = Inr [''child_process            1 new'', ''- f: null'']"
    using pad_throws_beyond_24
      [where str = ?short and oldModule = ?oldS and newModules = "[?newS]"
         and newModule = ?newS]
    by (simp add: newMethodsOf_def methodLine_def d p)
  from l s show ?thesis by blast
qed

end
